theory Spec2Isabelle
  imports Complex_Main
begin

section \<open>Numbers, randomness and time\<close>

text \<open>
  The sources are TypeScript. A JavaScript \<^verbatim>\<open>number\<close> is modelled by an exact number:
  health, points, damage and millisecond timestamps are \<^typ>\<open>int\<close>, coordinates, percentages
  and random draws are \<^typ>\<open>real\<close>; \<^verbatim>\<open>Math.floor\<close> is \<^const>\<open>floor\<close>. Rounding of
  IEEE doubles is not modelled.

  \<^verbatim>\<open>Math.random()\<close> returns a number \<open>r\<close> with \<open>0 \<le> r < 1\<close>. Every source function that
  calls it takes its draws as arguments, one per call (a record of draws, or an indexed source
  inside a loop), and every function that calls \<^verbatim>\<open>Date.now()\<close> takes the clock reading
  \<open>now\<close> as an argument.
\<close>

definition unit_draw :: "real \<Rightarrow> bool" where
  "unit_draw r \<longleftrightarrow> 0 \<le> r \<and> r < 1"

section \<open>Combat tables (duel arena and open world)\<close>

text \<open>
  The duel component \<^verbatim>\<open>DuelGame\<close> and the open-world component \<^verbatim>\<open>GameCanvas\<close> declare
  the same two tables.
  \<^verbatim>\<open>
  const WEAPON_DAMAGE = {
    usa: { min: 8, max: 12 }, japan: { min: 10, max: 15 }, uk: { min: 5, max: 10 },
    russia: { min: 12, max: 18 }, brazil: { min: 6, max: 14 } };
  const DEFENSE_VALUES: Record<string, number> = {
    usa: 0.2, japan: 0.15, uk: 0.3, russia: 0.1, brazil: 0.25 };
  \<close>
\<close>

record damageRange =
  range_min :: int
  range_max :: int

definition WEAPON_DAMAGE :: "string \<rightharpoonup> damageRange" where
  "WEAPON_DAMAGE = map_of
     [(''usa'', \<lparr>range_min = 8, range_max = 12\<rparr>),
      (''japan'', \<lparr>range_min = 10, range_max = 15\<rparr>),
      (''uk'', \<lparr>range_min = 5, range_max = 10\<rparr>),
      (''russia'', \<lparr>range_min = 12, range_max = 18\<rparr>),
      (''brazil'', \<lparr>range_min = 6, range_max = 14\<rparr>)]"

definition DEFENSE_VALUES :: "string \<rightharpoonup> real" where
  "DEFENSE_VALUES = map_of
     [(''usa'', 0.2), (''japan'', 0.15), (''uk'', 0.3), (''russia'', 0.1), (''brazil'', 0.25)]"

definition countries :: "string list" where
  "countries = [''usa'', ''japan'', ''uk'', ''russia'', ''brazil'']"

definition MAX_HEALTH :: int where "MAX_HEALTH = 100"
definition ATTACK_COOLDOWN :: int where "ATTACK_COOLDOWN = 1000"
definition DEFENSE_COOLDOWN :: int where "DEFENSE_COOLDOWN = 1500"
definition RESPAWN_TIME :: int where "RESPAWN_TIME = 5000"

text \<open>
  \<^verbatim>\<open>WEAPON_DAMAGE[country] || WEAPON_DAMAGE.usa\<close>: a missing key falls back to the entry of
  \<^verbatim>\<open>usa\<close>.
\<close>

definition damageRangeOf :: "string \<Rightarrow> damageRange" where
  "damageRangeOf country =
     (case WEAPON_DAMAGE country of
        Some d \<Rightarrow> d
      | None \<Rightarrow> \<lparr>range_min = 8, range_max = 12\<rparr>)"

text \<open>
  \<^verbatim>\<open>DEFENSE_VALUES[country] || 0.2\<close>: a missing key, and a value of \<open>0\<close>, fall back to \<open>0.2\<close>.
\<close>

definition defenseValueOf :: "string \<Rightarrow> real" where
  "defenseValueOf country =
     (case DEFENSE_VALUES country of
        Some v \<Rightarrow> (if v = 0 then 0.2 else v)
      | None \<Rightarrow> 0.2)"

subsection \<open>Damage rolls\<close>

text \<open>
  Duel arena:
  \<^verbatim>\<open>
  const calculateDamage = (country: string) => {
    const damageRange = WEAPON_DAMAGE[country as keyof typeof WEAPON_DAMAGE] || WEAPON_DAMAGE.usa;
    return Math.floor(damageRange.min + Math.random() * (damageRange.max - damageRange.min));
  };
  \<close>
\<close>

definition calculateDamage :: "string \<Rightarrow> real \<Rightarrow> int" where
  "calculateDamage country r =
     (let damageRange = damageRangeOf country
      in \<lfloor>of_int (range_min damageRange)
           + r * of_int (range_max damageRange - range_min damageRange)\<rfloor>)"

text \<open>
  Open world, inside \<^verbatim>\<open>handleAttack\<close>:
  \<^verbatim>\<open>
  const playerCountry = selectedCharacter?.country || "usa";
  const damageRange = WEAPON_DAMAGE[playerCountry as keyof typeof WEAPON_DAMAGE] || WEAPON_DAMAGE.usa;
  const baseDamage = Math.floor(Math.random() * (damageRange.max - damageRange.min + 1)) + damageRange.min;
  \<close>
  The selected character may be undefined, and an empty country string is falsy.
\<close>

record Character =
  char_id :: string
  char_country :: string

definition playerCountryOf :: "Character option \<Rightarrow> string" where
  "playerCountryOf selected =
     (case selected of
        None \<Rightarrow> ''usa''
      | Some ch \<Rightarrow> (if char_country ch = [] then ''usa'' else char_country ch))"

definition baseDamage :: "Character option \<Rightarrow> real \<Rightarrow> int" where
  "baseDamage selected r =
     (let damageRange = damageRangeOf (playerCountryOf selected)
      in \<lfloor>r * of_int (range_max damageRange - range_min damageRange + 1)\<rfloor>
           + range_min damageRange)"

subsection \<open>Defense mitigation\<close>


text \<open>
  Open world, inside \<^verbatim>\<open>handleAttack\<close>:
  \<^verbatim>\<open>
  const defenseMultiplier = isTargetDefending
    ? 1 - (DEFENSE_VALUES[targetPlayer.country as keyof typeof DEFENSE_VALUES] || 0.2) : 1;
  const finalDamage = Math.floor(baseDamage * defenseMultiplier);
  \<close>
\<close>

definition defenseMultiplier :: "string \<Rightarrow> bool \<Rightarrow> real" where
  "defenseMultiplier targetCountry isTargetDefending =
     (if isTargetDefending then 1 - defenseValueOf targetCountry else 1)"

definition finalDamage :: "int \<Rightarrow> string \<Rightarrow> bool \<Rightarrow> int" where
  "finalDamage dmg targetCountry isTargetDefending =
     \<lfloor>of_int dmg * defenseMultiplier targetCountry isTargetDefending\<rfloor>"



section \<open>Open world: roster and human player\<close>

text \<open>
  \<^verbatim>\<open>interface OnlinePlayer\<close> of the open-world components. \<^verbatim>\<open>respawnTime\<close>, \<^verbatim>\<open>isNPC\<close>
  and \<^verbatim>\<open>aiType\<close> are optional fields; an absent \<^verbatim>\<open>isNPC\<close> is falsy.
\<close>

record OnlinePlayer =
  pid :: string
  pname :: string
  px :: real
  py :: real
  country :: string
  health :: int
  maxHealth :: int
  points :: int
  lastAttackTime :: int
  lastDefendTime :: int
  isDefending :: bool
  isAttacking :: bool
  isDead :: bool
  respawnTime :: "int option"
  isNPC :: bool
  aiType :: "string option"

subsection \<open>The roster owner (\<^verbatim>\<open>OpenSpaceGame\<close>)\<close>

text \<open>
  \<^verbatim>\<open>
  const handlePlayerUpdate = useCallback((updatedPlayer: OnlinePlayer) => {
    setOnlinePlayers(prevPlayers => prevPlayers.map(player =>
      player.id === updatedPlayer.id ? updatedPlayer : player)); }, []);
  const handlePlayerDeath = useCallback((playerId: string) => {
    setOnlinePlayers(prevPlayers => prevPlayers.map(player => {
      if (player.id === playerId) {
        return { ...player, isDead: true, health: 0,
                 points: Math.max(0, player.points - 1),
                 respawnTime: Date.now() + 5000 };
      }
      return player; })); }, []);
  \<close>
\<close>

definition handlePlayerUpdate :: "OnlinePlayer \<Rightarrow> OnlinePlayer list \<Rightarrow> OnlinePlayer list" where
  "handlePlayerUpdate updatedPlayer prevPlayers =
     map (\<lambda>player. if pid player = pid updatedPlayer then updatedPlayer else player) prevPlayers"

definition markDead :: "int \<Rightarrow> OnlinePlayer \<Rightarrow> OnlinePlayer" where
  "markDead now player =
     player\<lparr>isDead := True, health := 0,
            points := max 0 (points player - 1),
            respawnTime := Some (now + 5000)\<rparr>"

definition handlePlayerDeath :: "int \<Rightarrow> string \<Rightarrow> OnlinePlayer list \<Rightarrow> OnlinePlayer list" where
  "handlePlayerDeath now playerId prevPlayers =
     map (\<lambda>player. if pid player = playerId then markDead now player else player) prevPlayers"

text \<open>
  The respawn pass runs on a 5 second interval over the whole roster
  (\<^verbatim>\<open>mapSize = { width: 800, height: 600 }\<close>):
  \<^verbatim>\<open>
  const updatedPlayers = prevPlayers.map(player => {
    if (player.isDead && player.respawnTime && player.respawnTime <= now) {
      return { ...player, isDead: false, health: 100, // MAX_HEALTH
               x: Math.random() * (mapSize.width - 64) + 32,
               y: Math.random() * (mapSize.height - 64) + 32,
               respawnTime: undefined };
    }
    return player; });
  \<close>
  A \<^verbatim>\<open>respawnTime\<close> that is undefined or \<open>0\<close> is falsy. Each respawning player consumes two
  draws of the random source \<open>rs\<close>, in roster order.
\<close>

definition mapWidth :: real where "mapWidth = 800"
definition mapHeight :: real where "mapHeight = 600"

definition respawnDue :: "int \<Rightarrow> OnlinePlayer \<Rightarrow> bool" where
  "respawnDue now player \<longleftrightarrow>
     isDead player \<and>
     (case respawnTime player of None \<Rightarrow> False | Some t \<Rightarrow> t \<noteq> 0 \<and> t \<le> now)"

definition respawnPlayer :: "real \<Rightarrow> real \<Rightarrow> OnlinePlayer \<Rightarrow> OnlinePlayer" where
  "respawnPlayer r1 r2 player =
     player\<lparr>isDead := False, health := 100,
            px := r1 * (mapWidth - 64) + 32,
            py := r2 * (mapHeight - 64) + 32,
            respawnTime := None\<rparr>"

fun respawnPass :: "int \<Rightarrow> (nat \<Rightarrow> real) \<Rightarrow> OnlinePlayer list \<Rightarrow> OnlinePlayer list" where
  "respawnPass now rs [] = []"
| "respawnPass now rs (player # rest) =
     (if respawnDue now player
      then respawnPlayer (rs 0) (rs 1) player # respawnPass now (\<lambda>n. rs (n + 2)) rest
      else player # respawnPass now rs rest)"

subsection \<open>The human player's component (\<^verbatim>\<open>GameCanvas\<close>)\<close>

text \<open>
  The state of the open world: the roster held by \<^verbatim>\<open>OpenSpaceGame\<close> (passed to
  \<^verbatim>\<open>GameCanvas\<close> as the prop \<^verbatim>\<open>onlinePlayers\<close>, and updated through the props
  \<^verbatim>\<open>onPlayerUpdate = handlePlayerUpdate\<close> and \<^verbatim>\<open>onPlayerDeath = handlePlayerDeath\<close>) and
  the combat state of \<^verbatim>\<open>GameCanvas\<close>. Toasts and the combat UI state (\<^verbatim>\<open>targetPlayer\<close>,
  \<^verbatim>\<open>inRange\<close>, \<^verbatim>\<open>combatLog\<close>) are user feedback that no handler reads back; they are not
  part of the record, and the outcome of a click is returned instead.
\<close>

record openWorld =
  selectedCharacter :: "Character option"
  onlinePlayers :: "OnlinePlayer list"
  playerPosition :: "real \<times> real"
  playerHealth :: int
  playerPoints :: int
  playerIsDead :: bool
  lastAttackTimeRef :: int
  lastDefendTimeRef :: int
  isDefendingRef :: bool

definition PLAYER_SIZE :: real where "PLAYER_SIZE = 32"
definition ATTACK_RANGE_2D :: real where "ATTACK_RANGE_2D = PLAYER_SIZE * 2"
definition CANVAS_WIDTH :: real where "CANVAS_WIDTH = 800"
definition CANVAS_HEIGHT :: real where "CANVAS_HEIGHT = 600"

text \<open>
  \<^verbatim>\<open>
  const handleAttack = (targetPlayer: OnlinePlayer | undefined) => {
    if (!targetPlayer) return;
    const now = Date.now();
    lastAttackTimeRef.current = now;
    ... baseDamage, defenseMultiplier, finalDamage as above ...
    const updatedTargetPlayer = { ...targetPlayer,
      health: Math.max(0, targetPlayer.health - finalDamage) };
    if (updatedTargetPlayer.health <= 0) {
      updatedTargetPlayer.isDead = true;
      updatedTargetPlayer.respawnTime = now + RESPAWN_TIME;
      updatedTargetPlayer.points = Math.max(0, updatedTargetPlayer.points - 1);
      setPlayerPoints(prevPoints => prevPoints + 1);
      onPlayerDeath(targetPlayer.id);
    } else {
      onPlayerUpdate(updatedTargetPlayer);
    }
  };
  \<close>
  In the lethal branch the local object \<^verbatim>\<open>updatedTargetPlayer\<close> is not handed on: the roster
  changes through \<^verbatim>\<open>onPlayerDeath\<close> alone. The clock reading of \<^verbatim>\<open>handlePlayerDeath\<close>,
  which runs in the same call, is taken to be the same \<open>now\<close>.
\<close>

definition updatedTargetPlayer :: "int \<Rightarrow> Character option \<Rightarrow> real \<Rightarrow> OnlinePlayer \<Rightarrow> OnlinePlayer" where
  "updatedTargetPlayer now selected r targetPlayer =
     (let dmg = finalDamage (baseDamage selected r) (country targetPlayer) (isDefending targetPlayer);
          u = targetPlayer\<lparr>health := max 0 (health targetPlayer - dmg)\<rparr>
      in if health u \<le> 0
         then u\<lparr>isDead := True, respawnTime := Some (now + RESPAWN_TIME),
                points := max 0 (points u - 1)\<rparr>
         else u)"

definition handleAttack :: "int \<Rightarrow> real \<Rightarrow> OnlinePlayer option \<Rightarrow> openWorld \<Rightarrow> openWorld" where
  "handleAttack now r target w =
     (case target of
        None \<Rightarrow> w
      | Some targetPlayer \<Rightarrow>
          (let w1 = w\<lparr>lastAttackTimeRef := now\<rparr>;
               u = updatedTargetPlayer now (selectedCharacter w) r targetPlayer
           in if health u \<le> 0
              then w1\<lparr>playerPoints := playerPoints w1 + 1,
                      onlinePlayers := handlePlayerDeath now (pid targetPlayer) (onlinePlayers w1)\<rparr>
              else w1\<lparr>onlinePlayers := handlePlayerUpdate u (onlinePlayers w1)\<rparr>))"

text \<open>
  \<^verbatim>\<open>handleCanvasClick\<close>: the first living roster entry within \<^verbatim>\<open>PLAYER_SIZE / 2\<close> of the click
  is the target; it is attacked when it is within \<^verbatim>\<open>ATTACK_RANGE_2D\<close> of the player and
  \<^verbatim>\<open>now - lastAttackTimeRef.current >= ATTACK_COOLDOWN\<close>; otherwise the request is answered by
  the toast "Attack on cooldown!" (or "Move closer to attack!") and nothing else happens.
  The 3D click handler finds its target by ray casting and then applies the same two tests.
  \<^verbatim>\<open>
  if (!canvasRef.current || playerIsDead) return;
  const clickedPlayer = onlinePlayers.find(player => {
    if (player.isDead) return false;
    ... return distance <= PLAYER_SIZE / 2; });
  if (clickedPlayer) {
    ... const isInRange = distance <= ATTACK_RANGE_2D;
    if (isInRange) {
      const now = Date.now();
      if (now - lastAttackTimeRef.current >= ATTACK_COOLDOWN) { handleAttack(clickedPlayer); }
      else { toast.error("Attack on cooldown!"); ... }
    } else if (clickedPlayer) { toast.info(`... Move closer to attack!`); ... }
  } else { setTargetPlayer(null); setInRange(false); }
  \<close>
\<close>

datatype clickOutcome = Ignored | NoTarget | OutOfRange | OnCooldown | AttackExecuted

definition distance2D :: "real \<times> real \<Rightarrow> real \<times> real \<Rightarrow> real" where
  "distance2D a b =
     (let dx = fst a - fst b; dy = snd a - snd b in sqrt (dx * dx + dy * dy))"

definition clickedPlayer :: "real \<times> real \<Rightarrow> OnlinePlayer list \<Rightarrow> OnlinePlayer option" where
  "clickedPlayer click players =
     find (\<lambda>player. \<not> isDead player \<and> distance2D (px player, py player) click \<le> PLAYER_SIZE / 2)
       players"

definition handleCanvasClick :: "int \<Rightarrow> real \<Rightarrow> real \<times> real \<Rightarrow> openWorld \<Rightarrow> openWorld \<times> clickOutcome" where
  "handleCanvasClick now r click w =
     (if playerIsDead w then (w, Ignored)
      else case clickedPlayer click (onlinePlayers w) of
        None \<Rightarrow> (w, NoTarget)
      | Some target \<Rightarrow>
          if distance2D (px target, py target) (playerPosition w) \<le> ATTACK_RANGE_2D
          then (if now - lastAttackTimeRef w \<ge> ATTACK_COOLDOWN
                then (handleAttack now r (Some target) w, AttackExecuted)
                else (w, OnCooldown))
          else (w, OutOfRange))"

text \<open>
  Damage taken by the human player, the player's death and respawn:
  \<^verbatim>\<open>
  const takeDamage = (damage: number) => {
    const finalDamage = isDefendingRef.current
      ? Math.floor(damage * (1 - (DEFENSE_VALUES[selectedCharacter?.country ...] || 0.2)))
      : damage;
    setPlayerHealth(prev => {
      const newHealth = Math.max(0, prev - finalDamage);
      if (newHealth <= 0) { handlePlayerDeath(); }
      return newHealth; }); };
  const handlePlayerDeath = () => {
    if (!selectedCharacter || playerIsDead) return;
    setPlayerIsDead(true); setPlayerHealth(0); ...
    onPlayerDeath(selectedCharacter.id);
    const respawnTimeoutId = setTimeout(() => {
      const newPosition = {
        x: Math.random() * (CANVAS_WIDTH - PLAYER_SIZE * 2) + PLAYER_SIZE,
        y: Math.random() * (CANVAS_HEIGHT - PLAYER_SIZE * 2) + PLAYER_SIZE };
      setPlayerIsDead(false); setPlayerHealth(MAX_HEALTH);
      setPlayerPoints(prevPoints => Math.max(0, prevPoints - 1));
      setPlayerPosition(newPosition); ... }, RESPAWN_TIME); };
  \<close>
  With no selected character the lookup \<^verbatim>\<open>DEFENSE_VALUES[undefined]\<close> is undefined and the
  mitigation is \<open>0.2\<close>.
\<close>

definition ownDefenseValue :: "Character option \<Rightarrow> real" where
  "ownDefenseValue selected =
     (case selected of None \<Rightarrow> 0.2 | Some ch \<Rightarrow> defenseValueOf (char_country ch))"

definition takenDamage :: "int \<Rightarrow> openWorld \<Rightarrow> int" where
  "takenDamage damage w =
     (if isDefendingRef w
      then \<lfloor>of_int damage * (1 - ownDefenseValue (selectedCharacter w))\<rfloor>
      else damage)"

definition handlePlayerDeathCanvas :: "int \<Rightarrow> openWorld \<Rightarrow> openWorld" where
  "handlePlayerDeathCanvas now w =
     (case selectedCharacter w of
        None \<Rightarrow> w
      | Some ch \<Rightarrow>
          if playerIsDead w then w
          else w\<lparr>playerIsDead := True, playerHealth := 0,
                 onlinePlayers := handlePlayerDeath now (char_id ch) (onlinePlayers w)\<rparr>)"

definition takeDamage :: "int \<Rightarrow> int \<Rightarrow> openWorld \<Rightarrow> openWorld" where
  "takeDamage now damage w =
     (let newHealth = max 0 (playerHealth w - takenDamage damage w)
      in if newHealth \<le> 0
         then (handlePlayerDeathCanvas now w)\<lparr>playerHealth := newHealth\<rparr>
         else w\<lparr>playerHealth := newHealth\<rparr>)"

definition playerRespawn :: "real \<Rightarrow> real \<Rightarrow> openWorld \<Rightarrow> openWorld" where
  "playerRespawn r1 r2 w =
     w\<lparr>playerPosition :=
         (r1 * (CANVAS_WIDTH - PLAYER_SIZE * 2) + PLAYER_SIZE,
          r2 * (CANVAS_HEIGHT - PLAYER_SIZE * 2) + PLAYER_SIZE),
       playerIsDead := False,
       playerHealth := MAX_HEALTH,
       playerPoints := max 0 (playerPoints w - 1)\<rparr>"

section \<open>NPC AI engine\<close>

text \<open>
  \<^verbatim>\<open>npc-ai-engine\<close>: positions of targets are \<^verbatim>\<open>THREE.Vector3\<close> values whose \<^verbatim>\<open>x\<close> and
  \<^verbatim>\<open>z\<close> components hold the 2D coordinates. \<^verbatim>\<open>Vector3.normalize()\<close> of three.js divides
  by the length, or by \<open>1\<close> when the length is \<open>0\<close>.
\<close>

record vec3 =
  vx :: real
  vy :: real
  vz :: real

definition normalize :: "vec3 \<Rightarrow> vec3" where
  "normalize v =
     (let l = sqrt (vx v * vx v + vy v * vy v + vz v * vz v);
          d = (if l = 0 then 1 else l)
      in \<lparr>vx = vx v / d, vy = vy v / d, vz = vz v / d\<rparr>)"

datatype AIBehaviorType = PASSIVE | AGGRESSIVE | DEFENSIVE | COWARDLY | RANDOM

record AIState =
  behaviorType :: AIBehaviorType
  targetId :: "string option"
  lastDecisionTime :: int
  wanderTarget :: "vec3 option"
  fleeTarget :: "vec3 option"
  isResting :: bool
  restUntil :: int
  aiLastAttackTime :: int
  aiLastDefendTime :: int

record AIConfig =
  decisionInterval :: int
  aggroRange :: real
  attackRange :: real
  fleeThreshold :: real
  wanderRadius :: real
  attackCooldown :: int
  defendCooldown :: int

definition DEFAULT_AI_CONFIG :: AIConfig where
  "DEFAULT_AI_CONFIG =
     \<lparr>decisionInterval = 1000, aggroRange = 5, attackRange = 2, fleeThreshold = 0.3,
      wanderRadius = 10, attackCooldown = 2000, defendCooldown = 3000\<rparr>"

definition createAIState :: "AIBehaviorType \<Rightarrow> AIState" where
  "createAIState b =
     \<lparr>behaviorType = b, targetId = None, lastDecisionTime = 0, wanderTarget = None,
      fleeTarget = None, isResting = False, restUntil = 0,
      aiLastAttackTime = 0, aiLastDefendTime = 0\<rparr>"

definition shouldMakeDecision :: "int \<Rightarrow> AIState \<Rightarrow> AIConfig \<Rightarrow> bool" where
  "shouldMakeDecision now aiState config \<longleftrightarrow>
     now - lastDecisionTime aiState \<ge> decisionInterval config"

definition calculateDistance :: "OnlinePlayer \<Rightarrow> OnlinePlayer \<Rightarrow> real" where
  "calculateDistance player1 player2 =
     (let dx = px player1 - px player2; dy = py player1 - py player2
      in sqrt (dx * dx + dy * dy))"

text \<open>
  \<^verbatim>\<open>
  export function findNearestPlayer(npc, players, maxDistance: number = Infinity) {
    let nearestPlayer: OnlinePlayer | null = null;
    let nearestDistance = maxDistance;
    players.forEach(player => {
      if (player.id === npc.id || player.isDead || player.isNPC) { return; }
      const distance = calculateDistance(npc, player);
      if (distance < nearestDistance) { nearestDistance = distance; nearestPlayer = player; }
    });
    return nearestPlayer;
  }
  \<close>
  The bound \<^verbatim>\<open>Infinity\<close> is \<open>None\<close>.
\<close>

definition nearestStep :: "OnlinePlayer \<Rightarrow> OnlinePlayer option \<times> real option \<Rightarrow> OnlinePlayer
    \<Rightarrow> OnlinePlayer option \<times> real option" where
  "nearestStep npc acc player =
     (if pid player = pid npc \<or> isDead player \<or> isNPC player then acc
      else let distance = calculateDistance npc player
           in if (case snd acc of None \<Rightarrow> True | Some nearestDistance \<Rightarrow> distance < nearestDistance)
              then (Some player, Some distance)
              else acc)"

definition findNearestPlayer :: "OnlinePlayer \<Rightarrow> OnlinePlayer list \<Rightarrow> real option \<Rightarrow> OnlinePlayer option" where
  "findNearestPlayer npc players maxDistance =
     fst (foldl (nearestStep npc) (None, maxDistance) players)"

text \<open>
  \<^verbatim>\<open>
  export function generateWanderTarget(npc, spawnPosition, config) {
    const angle = Math.random() * Math.PI * 2;
    const distance = Math.random() * config.wanderRadius;
    return new THREE.Vector3(spawnPosition.x + Math.cos(angle) * distance, 0,
                             spawnPosition.z + Math.sin(angle) * distance); }
  export function generateFleeTarget(npc, target, config) {
    const dx = npc.x - target.x; const dy = npc.y - target.y;
    const length = Math.sqrt(dx * dx + dy * dy);
    const normalizedX = dx / length; const normalizedY = dy / length;
    const fleeDistance = config.wanderRadius;
    return new THREE.Vector3(npc.x + normalizedX * fleeDistance, 0,
                             npc.y + normalizedY * fleeDistance); }
  \<close>
  When the NPC stands exactly on the target, \<^verbatim>\<open>length\<close> is \<open>0\<close> and JavaScript yields
  \<^verbatim>\<open>NaN\<close> coordinates; the model has no \<^verbatim>\<open>NaN\<close>, and its value there says nothing
  about the program.
\<close>

definition generateWanderTarget :: "real \<Rightarrow> real \<Rightarrow> vec3 \<Rightarrow> AIConfig \<Rightarrow> vec3" where
  "generateWanderTarget r1 r2 spawnPosition config =
     (let angle = r1 * pi * 2;
          distance = r2 * wanderRadius config
      in \<lparr>vx = vx spawnPosition + cos angle * distance, vy = 0,
          vz = vz spawnPosition + sin angle * distance\<rparr>)"

definition generateFleeTarget :: "OnlinePlayer \<Rightarrow> OnlinePlayer \<Rightarrow> AIConfig \<Rightarrow> vec3" where
  "generateFleeTarget npc target config =
     (let dx = px npc - px target; dy = py npc - py target;
          length = sqrt (dx * dx + dy * dy);
          normalizedX = dx / length; normalizedY = dy / length;
          fleeDistance = wanderRadius config
      in \<lparr>vx = px npc + normalizedX * fleeDistance, vy = 0,
          vz = py npc + normalizedY * fleeDistance\<rparr>)"

text \<open>
  \<^verbatim>\<open>const healthPercentage = npc.health / npc.maxHealth\<close> is compared with the flee threshold.
  With \<^verbatim>\<open>maxHealth = 0\<close> the quotient is \<^verbatim>\<open>Infinity\<close>, \<^verbatim>\<open>-Infinity\<close> or \<^verbatim>\<open>NaN\<close>; the
  two comparisons are written out for that case.
\<close>

definition healthAtMost :: "OnlinePlayer \<Rightarrow> real \<Rightarrow> bool" where
  "healthAtMost npc threshold \<longleftrightarrow>
     (if maxHealth npc = 0 then health npc < 0
      else of_int (health npc) / of_int (maxHealth npc) \<le> threshold)"

definition healthAbove :: "OnlinePlayer \<Rightarrow> real \<Rightarrow> bool" where
  "healthAbove npc threshold \<longleftrightarrow>
     (if maxHealth npc = 0 then health npc > 0
      else of_int (health npc) / of_int (maxHealth npc) > threshold)"

definition behaviors :: "AIBehaviorType list" where
  "behaviors = [PASSIVE, AGGRESSIVE, DEFENSIVE, COWARDLY, RANDOM]"

text \<open>
  \<^verbatim>\<open>updateAIState\<close> calls \<^verbatim>\<open>Math.random()\<close> at up to seven places, each at most once per
  call; the draws are passed in a record, one field per place: the 20 percent behaviour
  change and the index of the new behaviour, the 70 percent targeting and 30 percent
  wandering of the random behaviour, the 10 percent re-roll of the passive wander target,
  and the angle and distance of \<^verbatim>\<open>generateWanderTarget\<close>.
\<close>

record decisionDraws =
  rChange :: real
  rPick :: real
  rTarget :: real
  rWander :: real
  rPassive :: real
  rAngle :: real
  rDistance :: real

definition engage :: "OnlinePlayer \<Rightarrow> AIState \<Rightarrow> AIState" where
  \<comment> \<open>\<^verbatim>\<open>targetId = nearestPlayer.id; wanderTarget = null; fleeTarget = null\<close>\<close>
  "engage nearestPlayer st =
     st\<lparr>targetId := Some (pid nearestPlayer), wanderTarget := None, fleeTarget := None\<rparr>"

definition newWanderTarget :: "decisionDraws \<Rightarrow> vec3 \<Rightarrow> AIConfig \<Rightarrow> vec3" where
  "newWanderTarget ds spawnPosition config =
     generateWanderTarget (rAngle ds) (rDistance ds) spawnPosition config"

text \<open>
  \<^verbatim>\<open>
  export function updateAIState(npc, aiState, players, spawnPosition, config = DEFAULT_AI_CONFIG) {
    const now = Date.now();
    if (aiState.isResting && now < aiState.restUntil) { return aiState; }
    if (!shouldMakeDecision(aiState, config)) { return aiState; }
    const updatedState = { ...aiState, lastDecisionTime: now, isResting: false };
    const healthPercentage = npc.health / npc.maxHealth;
    if (healthPercentage <= config.fleeThreshold && aiState.behaviorType !== COWARDLY) {
      updatedState.behaviorType = COWARDLY;
    } else if (healthPercentage > config.fleeThreshold && aiState.behaviorType === COWARDLY) {
      updatedState.behaviorType = PASSIVE;
    }
    const nearestPlayer = findNearestPlayer(npc, players,
      aiState.behaviorType === AGGRESSIVE ? Infinity : config.aggroRange);
    switch (updatedState.behaviorType) {
      case AGGRESSIVE:
        if (nearestPlayer) { targetId = nearestPlayer.id; wanderTarget = null; fleeTarget = null; }
        else if (!updatedState.wanderTarget) { wanderTarget = generateWanderTarget(...); }
        break;
      case DEFENSIVE:
        if (nearestPlayer && calculateDistance(npc, nearestPlayer) <= config.aggroRange) { (engage) }
        else { updatedState.targetId = null; }
        break;
      case COWARDLY:
        if (nearestPlayer) { targetId = null; wanderTarget = null;
                             fleeTarget = generateFleeTarget(npc, nearestPlayer, config); }
        else if (!updatedState.wanderTarget) { wanderTarget = generateWanderTarget(...); }
        break;
      case RANDOM:
        if (Math.random() < 0.2) {
          const behaviors = Object.values(AIBehaviorType);
          updatedState.behaviorType = behaviors[Math.floor(Math.random() * behaviors.length)];
        }
        if (nearestPlayer && Math.random() < 0.7) { (engage) }
        else if (Math.random() < 0.3) {
          targetId = null; wanderTarget = generateWanderTarget(...); fleeTarget = null; }
        break;
      case PASSIVE:
      default:
        if (nearestPlayer && npc.health < npc.maxHealth) { (engage) }
        else if (!updatedState.wanderTarget || Math.random() < 0.1) {
          wanderTarget = generateWanderTarget(...); }
        break;
    }
    return updatedState;
  }
  \<close>
  The index \<^verbatim>\<open>Math.floor(Math.random() * 5)\<close> lies in \<open>0..4\<close> for a draw in \<open>[0, 1)\<close>.
\<close>

definition updateAIState :: "int \<Rightarrow> decisionDraws \<Rightarrow> OnlinePlayer \<Rightarrow> AIState \<Rightarrow> OnlinePlayer list
    \<Rightarrow> vec3 \<Rightarrow> AIConfig \<Rightarrow> AIState" where
  "updateAIState now ds npc aiState players spawnPosition config =
     (if isResting aiState \<and> now < restUntil aiState then aiState
      else if \<not> shouldMakeDecision now aiState config then aiState
      else
        let st0 = aiState\<lparr>lastDecisionTime := now, isResting := False\<rparr>;
            updatedState =
              (if healthAtMost npc (fleeThreshold config) \<and> behaviorType aiState \<noteq> COWARDLY
               then st0\<lparr>behaviorType := COWARDLY\<rparr>
               else if healthAbove npc (fleeThreshold config) \<and> behaviorType aiState = COWARDLY
               then st0\<lparr>behaviorType := PASSIVE\<rparr>
               else st0);
            nearestPlayer = findNearestPlayer npc players
              (if behaviorType aiState = AGGRESSIVE then None else Some (aggroRange config))
        in case behaviorType updatedState of
             AGGRESSIVE \<Rightarrow>
               (case nearestPlayer of
                  Some p \<Rightarrow> engage p updatedState
                | None \<Rightarrow>
                    if wanderTarget updatedState = None
                    then updatedState\<lparr>wanderTarget := Some (newWanderTarget ds spawnPosition config)\<rparr>
                    else updatedState)
           | DEFENSIVE \<Rightarrow>
               (case nearestPlayer of
                  Some p \<Rightarrow>
                    if calculateDistance npc p \<le> aggroRange config
                    then engage p updatedState
                    else updatedState\<lparr>targetId := None\<rparr>
                | None \<Rightarrow> updatedState\<lparr>targetId := None\<rparr>)
           | COWARDLY \<Rightarrow>
               (case nearestPlayer of
                  Some p \<Rightarrow>
                    updatedState\<lparr>targetId := None, wanderTarget := None,
                                  fleeTarget := Some (generateFleeTarget npc p config)\<rparr>
                | None \<Rightarrow>
                    if wanderTarget updatedState = None
                    then updatedState\<lparr>wanderTarget := Some (newWanderTarget ds spawnPosition config)\<rparr>
                    else updatedState)
           | RANDOM \<Rightarrow>
               (let st1 =
                      (if rChange ds < 0.2
                       then updatedState\<lparr>behaviorType := behaviors ! nat \<lfloor>rPick ds * 5\<rfloor>\<rparr>
                       else updatedState)
                in if nearestPlayer \<noteq> None \<and> rTarget ds < 0.7
                   then engage (the nearestPlayer) st1
                   else if rWander ds < 0.3
                   then st1\<lparr>targetId := None,
                            wanderTarget := Some (newWanderTarget ds spawnPosition config),
                            fleeTarget := None\<rparr>
                   else st1)
           | PASSIVE \<Rightarrow>
               (if nearestPlayer \<noteq> None \<and> health npc < maxHealth npc
                then engage (the nearestPlayer) updatedState
                else if wanderTarget updatedState = None \<or> rPassive ds < 0.1
                then updatedState\<lparr>wanderTarget := Some (newWanderTarget ds spawnPosition config)\<rparr>
                else updatedState))"

text \<open>
  \<^verbatim>\<open>
  export function determineNextAction(npc, aiState, players, config = DEFAULT_AI_CONFIG) {
    const now = Date.now();
    let moveDirection = null; let shouldAttack = false; let shouldDefend = false;
    const targetPlayer = aiState.targetId
      ? players.find(p => p.id === aiState.targetId) || null : null;
    if (aiState.fleeTarget) {
      moveDirection = new THREE.Vector3(aiState.fleeTarget.x - npc.x, 0,
                                        aiState.fleeTarget.z - npc.y).normalize();
    } else if (targetPlayer && !targetPlayer.isDead) {
      const distance = calculateDistance(npc, targetPlayer);
      if (distance <= config.attackRange) {
        moveDirection = null;
        if (now - aiState.lastAttackTime >= config.attackCooldown) { shouldAttack = true; }
        if (now - aiState.lastDefendTime >= config.defendCooldown && Math.random() < 0.3) {
          shouldDefend = true; }
      } else {
        moveDirection = new THREE.Vector3(targetPlayer.x - npc.x, 0,
                                          targetPlayer.y - npc.y).normalize();
      }
    } else if (aiState.wanderTarget) {
      moveDirection = new THREE.Vector3(aiState.wanderTarget.x - npc.x, 0,
                                        aiState.wanderTarget.z - npc.y).normalize();
      const distanceToTarget = Math.sqrt(Math.pow(aiState.wanderTarget.x - npc.x, 2) +
                                         Math.pow(aiState.wanderTarget.z - npc.y, 2));
      if (distanceToTarget < 0.5) {
        // Close enough to target, clear it
        moveDirection = null;
      }
    }
    return { moveDirection, shouldAttack, shouldDefend, targetId: targetPlayer?.id || null };
  }
  \<close>
  An empty string is a falsy \<^verbatim>\<open>targetId\<close>.
\<close>

record nextAction =
  moveDirection :: "vec3 option"
  shouldAttack :: bool
  shouldDefend :: bool
  actionTargetId :: "string option"

definition lookupTarget :: "string option \<Rightarrow> OnlinePlayer list \<Rightarrow> OnlinePlayer option" where
  "lookupTarget tid players =
     (case tid of
        None \<Rightarrow> None
      | Some t \<Rightarrow> if t = [] then None else find (\<lambda>p. pid p = t) players)"

definition direction :: "real \<Rightarrow> real \<Rightarrow> vec3" where
  \<comment> \<open>\<^verbatim>\<open>new THREE.Vector3(dx, 0, dz).normalize()\<close>\<close>
  "direction dx dz = normalize \<lparr>vx = dx, vy = 0, vz = dz\<rparr>"

definition determineNextAction :: "int \<Rightarrow> real \<Rightarrow> OnlinePlayer \<Rightarrow> AIState \<Rightarrow> OnlinePlayer list
    \<Rightarrow> AIConfig \<Rightarrow> nextAction" where
  "determineNextAction now rd npc aiState players config =
     (let targetPlayer = lookupTarget (targetId aiState) players;
          idle = \<lparr>moveDirection = None, shouldAttack = False, shouldDefend = False,
                  actionTargetId =
                    (case targetPlayer of
                       None \<Rightarrow> None
                     | Some tp \<Rightarrow> if pid tp = [] then None else Some (pid tp))\<rparr>
      in case fleeTarget aiState of
           Some ft \<Rightarrow> idle\<lparr>moveDirection := Some (direction (vx ft - px npc) (vz ft - py npc))\<rparr>
         | None \<Rightarrow>
             if targetPlayer \<noteq> None \<and> \<not> isDead (the targetPlayer)
             then (let tp = the targetPlayer; distance = calculateDistance npc tp
                   in if distance \<le> attackRange config
                      then idle\<lparr>shouldAttack := (now - aiLastAttackTime aiState \<ge> attackCooldown config),
                                shouldDefend := (now - aiLastDefendTime aiState \<ge> defendCooldown config
                                                 \<and> rd < 0.3)\<rparr>
                      else idle\<lparr>moveDirection := Some (direction (px tp - px npc) (py tp - py npc))\<rparr>)
             else case wanderTarget aiState of
                    Some wt \<Rightarrow>
                      (let distanceToTarget = sqrt ((vx wt - px npc)\<^sup>2 + (vz wt - py npc)\<^sup>2)
                       in if distanceToTarget < 0.5 then idle
                          else idle\<lparr>moveDirection := Some (direction (vx wt - px npc) (vz wt - py npc))\<rparr>)
                  | None \<Rightarrow> idle)"

text \<open>
  \<^verbatim>\<open>
  export function updateNPCPosition(npc, moveDirection, deltaTime, moveSpeed = 2) {
    if (!moveDirection) return npc;
    return { ...npc, x: npc.x + moveDirection.x * moveSpeed * deltaTime,
                     y: npc.y + moveDirection.z * moveSpeed * deltaTime }; }
  export function processNPCAttack(npc, targetId, players, aiState) {
    if (!targetId) { return { updatedNPC: npc, updatedTarget: null, updatedAIState: aiState }; }
    const targetPlayer = players.find(p => p.id === targetId);
    if (!targetPlayer || targetPlayer.isDead) {
      return { updatedNPC: npc, updatedTarget: null, updatedAIState: aiState }; }
    // Calculate damage based on character country/class
    const damageMin = 5;
    const damageMax = 15;
    const damage = Math.floor(Math.random() * (damageMax - damageMin + 1)) + damageMin;
    const actualDamage = targetPlayer.isDefending ? Math.floor(damage / 2) : damage;
    const updatedTarget = { ...targetPlayer,
      health: Math.max(0, targetPlayer.health - actualDamage),
      isDead: targetPlayer.health - actualDamage <= 0 };
    const updatedNPC = { ...npc, isAttacking: true, lastAttackTime: Date.now() };
    const updatedAIState = { ...aiState, lastAttackTime: Date.now() };
    return { updatedNPC, updatedTarget, updatedAIState };
  }
  export function processNPCDefend(npc, aiState) {
    return { updatedNPC: { ...npc, isDefending: true, lastDefendTime: Date.now() },
             updatedAIState: { ...aiState, lastDefendTime: Date.now() } }; }
  \<close>
\<close>

definition updateNPCPosition :: "OnlinePlayer \<Rightarrow> vec3 option \<Rightarrow> real \<Rightarrow> real \<Rightarrow> OnlinePlayer" where
  "updateNPCPosition npc md deltaTime moveSpeed =
     (case md of
        None \<Rightarrow> npc
      | Some d \<Rightarrow> npc\<lparr>px := px npc + vx d * moveSpeed * deltaTime,
                       py := py npc + vz d * moveSpeed * deltaTime\<rparr>)"

record npcResult =
  updatedNPC :: OnlinePlayer
  updatedTarget :: "OnlinePlayer option"
  updatedAIState :: AIState

definition npcDamage :: "real \<Rightarrow> int" where
  "npcDamage r = (let damageMin = 5; damageMax = 15 in \<lfloor>r * of_int (damageMax - damageMin + 1)\<rfloor> + damageMin)"

definition npcActualDamage :: "real \<Rightarrow> OnlinePlayer \<Rightarrow> int" where
  "npcActualDamage r targetPlayer =
     (let damage = npcDamage r
      in if isDefending targetPlayer then \<lfloor>of_int damage / (2 :: real)\<rfloor> else damage)"

definition processNPCAttack :: "int \<Rightarrow> real \<Rightarrow> OnlinePlayer \<Rightarrow> string option \<Rightarrow> OnlinePlayer list
    \<Rightarrow> AIState \<Rightarrow> npcResult" where
  "processNPCAttack now r npc tid players aiState =
     (case lookupTarget tid players of
        None \<Rightarrow> \<lparr>updatedNPC = npc, updatedTarget = None, updatedAIState = aiState\<rparr>
      | Some targetPlayer \<Rightarrow>
          if isDead targetPlayer
          then \<lparr>updatedNPC = npc, updatedTarget = None, updatedAIState = aiState\<rparr>
          else
            (let dmg = npcActualDamage r targetPlayer
             in \<lparr>updatedNPC = npc\<lparr>isAttacking := True, lastAttackTime := now\<rparr>,
                 updatedTarget = Some (targetPlayer\<lparr>health := max 0 (health targetPlayer - dmg),
                                                    isDead := (health targetPlayer - dmg \<le> 0)\<rparr>),
                 updatedAIState = aiState\<lparr>aiLastAttackTime := now\<rparr>\<rparr>))"

definition processNPCDefend :: "int \<Rightarrow> OnlinePlayer \<Rightarrow> AIState \<Rightarrow> OnlinePlayer \<times> AIState" where
  "processNPCDefend now npc aiState =
     (npc\<lparr>isDefending := True, lastDefendTime := now\<rparr>, aiState\<lparr>aiLastDefendTime := now\<rparr>)"

text \<open>
  \<^verbatim>\<open>
  export function updateNPC(npc, aiState, players, spawnPosition, deltaTime, config) {
    if (npc.isDead) { return { updatedNPC: npc, updatedAIState: aiState, updatedTarget: null }; }
    const newAIState = updateAIState(npc, aiState, players, spawnPosition, config);
    const { moveDirection, shouldAttack, shouldDefend, targetId } =
      determineNextAction(npc, newAIState, players, config);
    let updatedNPC = npc;
    if (moveDirection) { updatedNPC = updateNPCPosition(updatedNPC, moveDirection, deltaTime); }
    updatedNPC = { ...updatedNPC, isAttacking: false, isDefending: false };
    let updatedTarget = null;
    if (shouldAttack) {
      const attackResult = processNPCAttack(updatedNPC, targetId, players, newAIState);
      updatedNPC = attackResult.updatedNPC; updatedTarget = attackResult.updatedTarget;
      newAIState.lastAttackTime = Date.now(); }
    if (shouldDefend) {
      const defendResult = processNPCDefend(updatedNPC, newAIState);
      updatedNPC = defendResult.updatedNPC;
      newAIState.lastDefendTime = Date.now(); }
    return { updatedNPC, updatedAIState: newAIState, updatedTarget };
  }
  \<close>
  The draws \<open>rd\<close> and \<open>ra\<close> are those of \<^verbatim>\<open>determineNextAction\<close> and \<^verbatim>\<open>processNPCAttack\<close>; all
  clock readings of one call are the same \<open>now\<close>.
\<close>

definition updateNPC :: "int \<Rightarrow> decisionDraws \<Rightarrow> real \<Rightarrow> real \<Rightarrow> OnlinePlayer \<Rightarrow> AIState
    \<Rightarrow> OnlinePlayer list \<Rightarrow> vec3 \<Rightarrow> real \<Rightarrow> AIConfig \<Rightarrow> npcResult" where
  "updateNPC now ds rd ra npc aiState players spawnPosition deltaTime config =
     (if isDead npc then \<lparr>updatedNPC = npc, updatedTarget = None, updatedAIState = aiState\<rparr>
      else
        let newAIState = updateAIState now ds npc aiState players spawnPosition config;
            act = determineNextAction now rd npc newAIState players config;
            moved = updateNPCPosition npc (moveDirection act) deltaTime 2;
            npc1 = moved\<lparr>isAttacking := False, isDefending := False\<rparr>;
            attackResult = processNPCAttack now ra npc1 (actionTargetId act) players newAIState;
            npc2 = (if shouldAttack act then updatedNPC attackResult else npc1);
            target2 = (if shouldAttack act then updatedTarget attackResult else None);
            ai2 = (if shouldAttack act then newAIState\<lparr>aiLastAttackTime := now\<rparr> else newAIState);
            npc3 = (if shouldDefend act then fst (processNPCDefend now npc2 ai2) else npc2);
            ai3 = (if shouldDefend act then ai2\<lparr>aiLastDefendTime := now\<rparr> else ai2)
        in \<lparr>updatedNPC = npc3, updatedTarget = target2, updatedAIState = ai3\<rparr>)"

section \<open>Duel arena\<close>

text \<open>
  The state of \<^verbatim>\<open>DuelGame\<close>: the two countries are props, the rest is React state. Each
  handler and each timer callback is a function on this record, reading the values of the
  state it is applied to. Which render's values a callback created inside an effect sees
  (the closures React keeps between renders) is not part of the model.
\<close>

datatype duelWinner = Player | Opponent

record duel =
  playerCountry :: string
  opponentCountry :: string
  duelPlayerHealth :: int
  duelOpponentHealth :: int
  isAttackCooldown :: bool
  isDefenseCooldown :: bool
  duelIsDefending :: bool
  timeRemaining :: int
  gameStarted :: bool
  gameOver :: bool
  winner :: "duelWinner option"


text \<open>
  \<^verbatim>\<open>
  const handleGameOver = () => {
    setGameOver(true);
    ...
    let gameWinner: "player" | "opponent" | null = null;
    if (playerHealth <= 0) { gameWinner = "opponent"; }
    else if (opponentHealth <= 0) { gameWinner = "player"; }
    else {
      // Time's up - compare health
      gameWinner = playerHealth > opponentHealth ? "player" : "opponent";
      // In case of a tie, player wins (slight advantage)
      if (playerHealth === opponentHealth) { gameWinner = "player"; }
    }
    setWinner(gameWinner);
    ...
  };
  \<close>
\<close>

definition gameWinner :: "int \<Rightarrow> int \<Rightarrow> duelWinner" where
  "gameWinner ph oh =
     (if ph \<le> 0 then Opponent
      else if oh \<le> 0 then Player
      else (let w = (if ph > oh then Player else Opponent)
            in if ph = oh then Player else w))"

definition handleGameOver :: "duel \<Rightarrow> duel" where
  "handleGameOver d =
     d\<lparr>gameOver := True,
       winner := Some (gameWinner (duelPlayerHealth d) (duelOpponentHealth d))\<rparr>"










section \<open>Invariant and concrete inputs\<close>


text \<open>
  The roster that \<^verbatim>\<open>OpenSpaceGame\<close> installs (\<^verbatim>\<open>mockPlayers\<close>), and the initial state of
  \<^verbatim>\<open>GameCanvas\<close>:
  \<^verbatim>\<open>
  { id: "1", name: "Player1", x: 100, y: 150, country: "usa", health: 100, maxHealth: 100,
    points: 1, lastAttackTime: 0, lastDefendTime: 0, isDefending: false, isAttacking: false,
    isDead: false }, ... "2" Player2 200 250 japan, "3" Player3 300 100 uk,
    "4" Player4 400 200 russia, "5" Player5 500 300 brazil
  \<close>
\<close>

definition mockPlayer :: "string \<Rightarrow> string \<Rightarrow> real \<Rightarrow> real \<Rightarrow> string \<Rightarrow> OnlinePlayer" where
  "mockPlayer i n x y c =
     \<lparr>pid = i, pname = n, px = x, py = y, country = c, health = 100, maxHealth = 100,
      points = 1, lastAttackTime = 0, lastDefendTime = 0, isDefending = False,
      isAttacking = False, isDead = False, respawnTime = None, isNPC = False, aiType = None\<rparr>"

definition mockPlayers :: "OnlinePlayer list" where
  "mockPlayers =
     [mockPlayer ''1'' ''Player1'' 100 150 ''usa'',
      mockPlayer ''2'' ''Player2'' 200 250 ''japan'',
      mockPlayer ''3'' ''Player3'' 300 100 ''uk'',
      mockPlayer ''4'' ''Player4'' 400 200 ''russia'',
      mockPlayer ''5'' ''Player5'' 500 300 ''brazil'']"

definition initialWorld :: "Character option \<Rightarrow> openWorld" where
  "initialWorld selected =
     \<lparr>selectedCharacter = selected, onlinePlayers = mockPlayers, playerPosition = (400, 300),
      playerHealth = MAX_HEALTH, playerPoints = 1, playerIsDead = False,
      lastAttackTimeRef = 0, lastDefendTimeRef = 0, isDefendingRef = False\<rparr>"

definition russian :: Character where
  "russian = \<lparr>char_id = ''me'', char_country = ''russia''\<rparr>"

text \<open>
  An NPC in the shape \<^verbatim>\<open>useNPCManager\<close> creates (id \<^verbatim>\<open>npc-1\<close>, health 100, \<^verbatim>\<open>isNPC\<close> set),
  and draws that always return one half.
\<close>

definition npc1 :: "string \<Rightarrow> real \<Rightarrow> real \<Rightarrow> OnlinePlayer" where
  "npc1 c x y = (mockPlayer ''npc-1'' ''NPC 1'' x y c)\<lparr>isNPC := True\<rparr>"

definition halfDraws :: "nat \<Rightarrow> real" where
  "halfDraws n = 1 / 2"

definition halfDecision :: decisionDraws where
  "halfDecision =
     \<lparr>rChange = 1 / 2, rPick = 1 / 2, rTarget = 1 / 2, rWander = 1 / 2, rPassive = 1 / 2,
      rAngle = 1 / 2, rDistance = 1 / 2\<rparr>"




definition pointsInv :: "openWorld \<Rightarrow> bool" where
  "pointsInv w \<longleftrightarrow> 0 \<le> playerPoints w \<and> (\<forall>p \<in> set (onlinePlayers w). 0 \<le> points p)"

definition weaken :: "OnlinePlayer \<Rightarrow> OnlinePlayer" where
  "weaken p = p\<lparr>health := 5, points := 0\<rparr>"

definition weakWorld :: openWorld where
  "weakWorld = (initialWorld (Some russian))\<lparr>playerPosition := (100, 150),
      onlinePlayers := map weaken mockPlayers\<rparr>"




text \<open>
  For the NPC engine: no living human in the list, a decision being due, and the target of an
  AI state being present and alive.
\<close>

definition noHuman :: "OnlinePlayer \<Rightarrow> OnlinePlayer list \<Rightarrow> bool" where
  "noHuman npc players \<longleftrightarrow> list_all (\<lambda>p. pid p = pid npc \<or> isDead p \<or> isNPC p) players"

definition decisionDue :: "int \<Rightarrow> AIState \<Rightarrow> AIConfig \<Rightarrow> bool" where
  "decisionDue now aiState config \<longleftrightarrow>
     \<not> (isResting aiState \<and> now < restUntil aiState) \<and> shouldMakeDecision now aiState config"

definition liveTarget :: "AIState \<Rightarrow> OnlinePlayer list \<Rightarrow> bool" where
  "liveTarget aiState players \<longleftrightarrow>
     (case lookupTarget (targetId aiState) players of None \<Rightarrow> False | Some tp \<Rightarrow> \<not> isDead tp)"

definition hunter :: OnlinePlayer where
  "hunter = npc1 ''russia'' 100 151"

definition hunterAI :: AIState where
  "hunterAI = (createAIState AGGRESSIVE)\<lparr>targetId := Some ''1''\<rparr>"

definition guardAI :: AIState where
  "guardAI = (createAIState DEFENSIVE)\<lparr>targetId := Some ''1''\<rparr>"

definition deadRoster :: "OnlinePlayer list" where
  "deadRoster = [(mockPlayers ! 0)\<lparr>health := 0, isDead := True\<rparr>, hunter]"

definition liveRoster :: "OnlinePlayer list" where
  "liveRoster = [mockPlayers ! 0, hunter]"

definition spawn0 :: vec3 where
  "spawn0 = \<lparr>vx = 100, vy = 0, vz = 151\<rparr>"

text \<open>Arrival at a wander target, and an NPC that has arrived with nobody else around.\<close>

definition arrived :: "OnlinePlayer \<Rightarrow> vec3 \<Rightarrow> bool" where
  "arrived npc wt \<longleftrightarrow> sqrt ((vx wt - px npc)\<^sup>2 + (vz wt - py npc)\<^sup>2) < 0.5"

definition wanderer :: OnlinePlayer where
  "wanderer = npc1 ''brazil'' 10 10"

definition wanderGoal :: vec3 where
  "wanderGoal = \<lparr>vx = 10, vy = 0, vz = 103 / 10\<rparr>"

definition wandererAI :: AIState where
  "wandererAI = (createAIState AGGRESSIVE)\<lparr>wanderTarget := Some wanderGoal\<rparr>"

section \<open>Properties of the combat rules\<close>

subsection \<open>Defense mitigation\<close>






subsection \<open>Damage rolls\<close>

lemma floor_affine_bounds:
  fixes a n :: int and r :: real
  assumes "0 \<le> r" and "r < 1" and "0 < n"
  shows "a \<le> \<lfloor>of_int a + r * of_int n\<rfloor> \<and> \<lfloor>of_int a + r * of_int n\<rfloor> < a + n"
proof
  have "0 \<le> r * of_int n" using assms by simp
  then have "(of_int a :: real) \<le> of_int a + r * of_int n" by simp
  then show "a \<le> \<lfloor>of_int a + r * of_int n\<rfloor>" by (simp add: le_floor_iff)
next
  have "r * of_int n < 1 * of_int n"
    using assms by (intro mult_strict_right_mono) auto
  then have "of_int a + r * of_int n < of_int (a + n)" by simp
  then show "\<lfloor>of_int a + r * of_int n\<rfloor> < a + n" by (simp only: floor_less_iff)
qed

lemma damageRange_positive:
  "c \<in> set countries \<Longrightarrow> range_min (damageRangeOf c) < range_max (damageRangeOf c)"
  by (auto simp: countries_def damageRangeOf_def WEAPON_DAMAGE_def)



subsection \<open>Values reached by the two rolls\<close>

lemma playerCountryOf_countries:
  "c \<in> set countries \<Longrightarrow> playerCountryOf (Some \<lparr>char_id = i, char_country = c\<rparr>) = c"
  by (auto simp: playerCountryOf_def countries_def)

lemma calculateDamage_reaches_below:
  assumes "c \<in> set countries"
    and "range_min (damageRangeOf c) \<le> k" and "k < range_max (damageRangeOf c)"
  shows "\<exists>r. unit_draw r \<and> calculateDamage c r = k"
proof -
  let ?lo = "range_min (damageRangeOf c)"
  let ?n = "range_max (damageRangeOf c) - ?lo"
  let ?r = "real_of_int (k - ?lo) / real_of_int ?n"
  have n: "0 < ?n"
    using damageRange_positive [OF assms(1)] by simp
  have "unit_draw ?r"
    using assms(2,3) n by (simp add: unit_draw_def)
  moreover have "real_of_int ?lo + ?r * real_of_int ?n = real_of_int k"
    using n by simp
  then have "\<lfloor>real_of_int ?lo + ?r * real_of_int ?n\<rfloor> = k"
    by (simp only: floor_of_int)
  then have "calculateDamage c ?r = k"
    by (simp add: calculateDamage_def Let_def)
  ultimately show ?thesis by blast
qed

lemma baseDamage_in_range:
  assumes "c \<in> set countries" and "unit_draw r"
  shows "range_min (damageRangeOf c) \<le> baseDamage (Some \<lparr>char_id = i, char_country = c\<rparr>) r
       \<and> baseDamage (Some \<lparr>char_id = i, char_country = c\<rparr>) r \<le> range_max (damageRangeOf c)"
proof -
  let ?n = "range_max (damageRangeOf c) - range_min (damageRangeOf c) + 1"
  have "0 < ?n"
    using damageRange_positive [OF assms(1)] by simp
  then have "0 \<le> \<lfloor>of_int 0 + r * of_int ?n\<rfloor> \<and> \<lfloor>of_int 0 + r * of_int ?n\<rfloor> < 0 + ?n"
    using assms(2) by (intro floor_affine_bounds) (simp_all add: unit_draw_def)
  then show ?thesis
    using assms(1) by (simp add: baseDamage_def playerCountryOf_countries Let_def)
qed

lemma baseDamage_reaches_all:
  assumes "c \<in> set countries"
    and "range_min (damageRangeOf c) \<le> k" and "k \<le> range_max (damageRangeOf c)"
  shows "\<exists>r. unit_draw r \<and> baseDamage (Some \<lparr>char_id = i, char_country = c\<rparr>) r = k"
proof -
  let ?lo = "range_min (damageRangeOf c)"
  let ?n = "range_max (damageRangeOf c) - ?lo + 1"
  let ?r = "real_of_int (k - ?lo) / real_of_int ?n"
  have n: "0 < ?n"
    using damageRange_positive [OF assms(1)] by simp
  have "unit_draw ?r"
    using assms(2,3) n by (simp add: unit_draw_def)
  moreover have "?r * real_of_int ?n = real_of_int (k - ?lo)"
    using n by simp
  then have "\<lfloor>?r * real_of_int ?n\<rfloor> = k - ?lo"
    by (simp only: floor_of_int)
  then have "baseDamage (Some \<lparr>char_id = i, char_country = c\<rparr>) ?r = k"
    using assms(1) by (simp add: baseDamage_def playerCountryOf_countries Let_def)
  ultimately show ?thesis by blast
qed

section \<open>Health\<close>







lemma processNPCAttack_no_target:
  assumes "lookupTarget tid players = None \<or> (\<exists>tp. lookupTarget tid players = Some tp \<and> isDead tp)"
  shows "processNPCAttack now r npc tid players ai =
     \<lparr>updatedNPC = npc, updatedTarget = None, updatedAIState = ai\<rparr>"
  using assms by (auto simp: processNPCAttack_def)

lemma handleGameOver_health [simp]:
  "duelPlayerHealth (handleGameOver d) = duelPlayerHealth d"
  "duelOpponentHealth (handleGameOver d) = duelOpponentHealth d"
  by (simp_all add: handleGameOver_def)





section \<open>Duel resolution\<close>





section \<open>Cooldown\<close>














section \<open>Points\<close>

lemma markDead_points:
  "points (markDead now p) = max 0 (points p - 1)"
  by (simp add: markDead_def)

lemma handleAttack_lethal:
  assumes "health (updatedTargetPlayer now (selectedCharacter w) r t) \<le> 0"
  shows "handleAttack now r (Some t) w =
     w\<lparr>lastAttackTimeRef := now, playerPoints := playerPoints w + 1,
       onlinePlayers := handlePlayerDeath now (pid t) (onlinePlayers w)\<rparr>"
  using assms by (simp add: handleAttack_def Let_def)

lemma handleAttack_nonlethal:
  assumes "\<not> health (updatedTargetPlayer now (selectedCharacter w) r t) \<le> 0"
  shows "handleAttack now r (Some t) w =
     w\<lparr>lastAttackTimeRef := now,
       onlinePlayers := handlePlayerUpdate (updatedTargetPlayer now (selectedCharacter w) r t)
                          (onlinePlayers w)\<rparr>"
  using assms by (simp add: handleAttack_def Let_def)

lemma updatedTargetPlayer_points:
  "points (updatedTargetPlayer now sel r t) =
     (if health (updatedTargetPlayer now sel r t) \<le> 0 then max 0 (points t - 1) else points t)"
  by (simp add: updatedTargetPlayer_def Let_def)

lemma handlePlayerDeath_points_nonneg:
  assumes "\<forall>p \<in> set ps. 0 \<le> points p"
  shows "\<forall>p \<in> set (handlePlayerDeath now i ps). 0 \<le> points p"
  using assms by (auto simp: handlePlayerDeath_def markDead_points)

lemma handlePlayerUpdate_points_nonneg:
  assumes "\<forall>p \<in> set ps. 0 \<le> points p" and "0 \<le> points u"
  shows "\<forall>p \<in> set (handlePlayerUpdate u ps). 0 \<le> points p"
  using assms by (auto simp: handlePlayerUpdate_def)

lemma respawnPass_points:
  "map points (respawnPass now rs ps) = map points ps"
  by (induction ps arbitrary: rs) (simp_all add: respawnPlayer_def)

lemma handleAttack_pointsInv:
  assumes "pointsInv w" and "0 \<le> points t"
  shows "pointsInv (handleAttack now r (Some t) w)"
proof (cases "health (updatedTargetPlayer now (selectedCharacter w) r t) \<le> 0")
  case True
  then show ?thesis
    using assms handlePlayerDeath_points_nonneg [of "onlinePlayers w" now "pid t"]
    by (simp add: handleAttack_lethal pointsInv_def)
next
  case False
  then have "0 \<le> points (updatedTargetPlayer now (selectedCharacter w) r t)"
    using assms(2) by (simp add: updatedTargetPlayer_points)
  then show ?thesis
    using False assms(1)
      handlePlayerUpdate_points_nonneg [of "onlinePlayers w"
        "updatedTargetPlayer now (selectedCharacter w) r t"]
    by (simp add: handleAttack_nonlethal pointsInv_def)
qed

lemma clickedPlayer_in_roster:
  "clickedPlayer click ps = Some t \<Longrightarrow> t \<in> set ps"
  by (auto simp: clickedPlayer_def find_Some_iff)

lemma handleCanvasClick_pointsInv:
  assumes "pointsInv w"
  shows "pointsInv (fst (handleCanvasClick now r click w))"
proof (cases "clickedPlayer click (onlinePlayers w)")
  case None
  then show ?thesis using assms by (simp add: handleCanvasClick_def)
next
  case (Some t)
  then have "0 \<le> points t"
    using assms clickedPlayer_in_roster [of click "onlinePlayers w" t] by (simp add: pointsInv_def)
  then have "pointsInv (handleAttack now r (Some t) w)"
    using assms by (simp add: handleAttack_pointsInv)
  then show ?thesis
    using Some assms by (simp add: handleCanvasClick_def)
qed

lemma takeDamage_pointsInv:
  assumes "pointsInv w"
  shows "pointsInv (takeDamage now damage w)"
  using assms handlePlayerDeath_points_nonneg [of "onlinePlayers w" now]
  by (simp add: takeDamage_def handlePlayerDeathCanvas_def pointsInv_def Let_def split: option.splits)

lemma playerRespawn_pointsInv:
  "pointsInv w \<Longrightarrow> pointsInv (playerRespawn r1 r2 w)"
  by (simp add: playerRespawn_def pointsInv_def)

lemma respawnPass_points_nonneg:
  "\<forall>p \<in> set ps. 0 \<le> points p \<Longrightarrow> \<forall>p \<in> set (respawnPass now rs ps). 0 \<le> points p"
  by (induction ps arbitrary: rs) (simp_all add: respawnPlayer_def)

lemma respawnPass_pointsInv:
  assumes "pointsInv w"
  shows "pointsInv (w\<lparr>onlinePlayers := respawnPass now rs (onlinePlayers w)\<rparr>)"
  using assms respawnPass_points_nonneg [of "onlinePlayers w" now rs]
  by (simp add: pointsInv_def)

text \<open>
  C10. Kill reward. A lethal attack of the human player raises the attacker's points by
  exactly \<open>1\<close>, whatever the victim holds; the victim's points become
  \<open>max 0 (points - 1)\<close> (in the roster through \<^const>\<open>handlePlayerDeath\<close>, and in the local
  \<^const>\<open>updatedTargetPlayer\<close>), and the human player's respawn sets the player's points to
  \<open>max 0 (points - 1)\<close>. A victim with \<open>0\<close> points keeps \<open>0\<close>, so the kill adds one point to
  the total. No operation of the open world makes a points value negative: non-negative
  points of the player and of every roster entry are kept by a click, by damage taken, by the
  player's respawn and by the respawn pass.
\<close>

theorem kill_reward_points:
  "(health (updatedTargetPlayer now (selectedCharacter w) r t) \<le> 0 \<longrightarrow>
      playerPoints (handleAttack now r (Some t) w) = playerPoints w + 1
      \<and> onlinePlayers (handleAttack now r (Some t) w)
          = map (\<lambda>p. if pid p = pid t then markDead now p else p) (onlinePlayers w)
      \<and> points (updatedTargetPlayer now (selectedCharacter w) r t) = max 0 (points t - 1))
   \<and> points (markDead now p) = max 0 (points p - 1)
   \<and> playerPoints (playerRespawn r1 r2 w) = max 0 (playerPoints w - 1)
   \<and> (health (updatedTargetPlayer now (selectedCharacter w) r t) \<le> 0 \<and> points t = 0 \<longrightarrow>
      playerPoints (handleAttack now r (Some t) w) + points (markDead now t)
        = playerPoints w + points t + 1)
   \<and> (pointsInv w \<longrightarrow>
      pointsInv (fst (handleCanvasClick now r click w))
      \<and> pointsInv (takeDamage now damage w)
      \<and> pointsInv (playerRespawn r1 r2 w)
      \<and> pointsInv (w\<lparr>onlinePlayers := respawnPass now rs (onlinePlayers w)\<rparr>))"
  using handleCanvasClick_pointsInv [of w now r click] takeDamage_pointsInv [of w now damage]
    playerRespawn_pointsInv [of w r1 r2] respawnPass_pointsInv [of w now rs]
  by (simp add: handleAttack_lethal updatedTargetPlayer_points markDead_points
        handlePlayerDeath_def playerRespawn_def)

lemma weak_target_dies:
  "health (updatedTargetPlayer 5000 (selectedCharacter weakWorld) (1 / 2) (weaken (mockPlayers ! 0))) = 0"
  by (simp add: weakWorld_def initialWorld_def weaken_def mockPlayers_def mockPlayer_def
        updatedTargetPlayer_def finalDamage_def defenseMultiplier_def baseDamage_def
        playerCountryOf_def russian_def damageRangeOf_def WEAPON_DAMAGE_def Let_def)

lemma weakWorld_simps:
  "playerPoints weakWorld = 1"
  "onlinePlayers weakWorld = map weaken mockPlayers"
  by (simp_all add: weakWorld_def initialWorld_def)

lemma weak_points: "map points (map weaken mockPlayers) = [0, 0, 0, 0, 0]"
  by (simp add: weaken_def mockPlayers_def)

lemma weakWorld_pointsInv: "pointsInv weakWorld"
  by (simp add: pointsInv_def weakWorld_simps weaken_def mockPlayers_def)

theorem kill_reward_points_witness:
  "health (updatedTargetPlayer 5000 (selectedCharacter weakWorld) (1 / 2) (weaken (mockPlayers ! 0))) \<le> 0
   \<and> points (weaken (mockPlayers ! 0)) = 0
   \<and> playerPoints weakWorld = 1
   \<and> playerPoints (handleAttack 5000 (1 / 2) (Some (weaken (mockPlayers ! 0))) weakWorld) = 2
   \<and> map points (onlinePlayers (handleAttack 5000 (1 / 2) (Some (weaken (mockPlayers ! 0))) weakWorld))
       = [0, 0, 0, 0, 0]
   \<and> points (markDead 5000 (weaken (mockPlayers ! 0))) = 0
   \<and> pointsInv weakWorld
   \<and> pointsInv (fst (handleCanvasClick 5000 (1 / 2) (100, 150) weakWorld))
   \<and> pointsInv (takeDamage 5000 150 weakWorld)
   \<and> playerPoints (playerRespawn (1 / 2) (1 / 2) weakWorld) = 0"
proof -
  let ?t = "weaken (mockPlayers ! 0)"
  note k = kill_reward_points [where now = 5000 and w = weakWorld and r = "1 / 2"
      and t = ?t and p = ?t and ?r1.0 = "1 / 2" and ?r2.0 = "1 / 2" and click = "(100, 150)"
      and damage = 150 and rs = halfDraws]
  have lethal: "health (updatedTargetPlayer 5000 (selectedCharacter weakWorld) (1 / 2) ?t) \<le> 0"
    by (simp add: weak_target_dies)
  have p0: "points ?t = 0"
    by (simp add: weaken_def)
  have a: "playerPoints (handleAttack 5000 (1 / 2) (Some ?t) weakWorld) = 2"
    using k lethal by (simp add: weakWorld_simps)
  have "onlinePlayers (handleAttack 5000 (1 / 2) (Some ?t) weakWorld)
          = map (\<lambda>p. if pid p = pid ?t then markDead 5000 p else p) (onlinePlayers weakWorld)"
    using k lethal by blast
  then have b: "map points (onlinePlayers (handleAttack 5000 (1 / 2) (Some ?t) weakWorld))
       = [0, 0, 0, 0, 0]"
    by (simp add: weakWorld_simps weaken_def mockPlayers_def mockPlayer_def markDead_def)
  have c: "points (markDead 5000 ?t) = 0"
    using k p0 by simp
  have d: "pointsInv (fst (handleCanvasClick 5000 (1 / 2) (100, 150) weakWorld))
      \<and> pointsInv (takeDamage 5000 150 weakWorld)"
    using k weakWorld_pointsInv by blast
  have e: "playerPoints (playerRespawn (1 / 2) (1 / 2) weakWorld) = 0"
    using k by (simp add: weakWorld_simps)
  show ?thesis
    using lethal p0 a b c d e weakWorld_pointsInv by (simp add: weakWorld_simps)
qed

section \<open>Death and respawn\<close>












section \<open>NPC targets\<close>

lemma nearest_fold_noHuman:
  "noHuman npc players \<Longrightarrow> foldl (nearestStep npc) acc players = acc"
  by (induction players arbitrary: acc) (auto simp: noHuman_def nearestStep_def)

lemma findNearestPlayer_noHuman:
  "noHuman npc players \<Longrightarrow> findNearestPlayer npc players m = None"
  by (simp add: findNearestPlayer_def nearest_fold_noHuman)

lemma determineNextAction_intent:
  assumes "\<not> liveTarget ai players"
  shows "\<not> shouldAttack (determineNextAction now rd npc ai players cfg)
       \<and> \<not> shouldDefend (determineNextAction now rd npc ai players cfg)"
  using assms
  by (auto simp: determineNextAction_def liveTarget_def Let_def split: option.splits)

lemma processNPCAttack_stale:
  assumes "\<not> liveTarget ai players"
  shows "processNPCAttack now r npc (targetId ai) players ai' =
     \<lparr>updatedNPC = npc, updatedTarget = None, updatedAIState = ai'\<rparr>"
  using assms by (auto simp: processNPCAttack_def liveTarget_def split: option.splits)

lemma lookupTarget_member:
  "lookupTarget tid players = Some tp \<Longrightarrow> tp \<in> set players"
  by (auto simp: lookupTarget_def find_Some_iff split: option.splits if_splits)

lemma processNPCAttack_target_alive:
  assumes "updatedTarget (processNPCAttack now r npc tid players ai) = Some t'"
  shows "\<exists>tp. tp \<in> set players \<and> \<not> isDead tp \<and> pid tp = pid t'"
  using assms lookupTarget_member [of tid players]
  by (auto simp: processNPCAttack_def Let_def split: option.splits if_splits)

lemma updateNPC_target_alive:
  assumes "updatedTarget (updateNPC now ds rd ra npc ai players spawn dt cfg) = Some t'"
  shows "\<exists>tp. tp \<in> set players \<and> \<not> isDead tp \<and> pid tp = pid t'"
proof -
  obtain npc' tid ai' where
    "updatedTarget (processNPCAttack now ra npc' tid players ai') = Some t'"
    using assms by (auto simp: updateNPC_def Let_def split: if_splits)
  then show ?thesis by (rule processNPCAttack_target_alive)
qed

lemma updateAIState_defensive_clears:
  assumes "decisionDue now ai cfg" and "behaviorType ai = DEFENSIVE"
    and "\<not> healthAtMost npc (fleeThreshold cfg)" and "noHuman npc players"
  shows "targetId (updateAIState now ds npc ai players spawn cfg) = None"
  using assms
  by (auto simp: updateAIState_def decisionDue_def findNearestPlayer_noHuman Let_def)

lemma updateAIState_keeps_target:
  assumes "behaviorType ai \<in> {AGGRESSIVE, PASSIVE, COWARDLY}" and "noHuman npc players"
  shows "targetId (updateAIState now ds npc ai players spawn cfg) = targetId ai"
  using assms
  by (auto simp: updateAIState_def findNearestPlayer_noHuman Let_def)

text \<open>
  C5 (amended). Stale targets. \<^const>\<open>determineNextAction\<close> looks the target up on every call
  and issues no attack and no defend intent unless \<^const>\<open>targetId\<close> names a combatant that is
  in the list and not dead; \<^const>\<open>processNPCAttack\<close> changes nothing for such a target; and a
  target that \<^const>\<open>updateNPC\<close> returns as hit is a living member of the list.
  \<^const>\<open>updateAIState\<close> itself drops a \<^const>\<open>targetId\<close> only by policy: with no living human in
  the list, a decision of a defensive NPC above the flee threshold sets it to none, while an
  aggressive, passive or cowardly NPC keeps the \<^const>\<open>targetId\<close> it had.
\<close>

theorem stale_target_no_attack:
  "(\<not> liveTarget ai players \<longrightarrow>
      \<not> shouldAttack (determineNextAction now rd npc ai players cfg)
      \<and> \<not> shouldDefend (determineNextAction now rd npc ai players cfg)
      \<and> processNPCAttack now ra npc (targetId ai) players ai
          = \<lparr>updatedNPC = npc, updatedTarget = None, updatedAIState = ai\<rparr>)
   \<and> (updatedTarget (updateNPC now ds rd ra npc ai players spawn dt cfg) = Some t' \<longrightarrow>
      (\<exists>tp. tp \<in> set players \<and> \<not> isDead tp \<and> pid tp = pid t'))
   \<and> (decisionDue now ai cfg \<and> behaviorType ai = DEFENSIVE
        \<and> \<not> healthAtMost npc (fleeThreshold cfg) \<and> noHuman npc players \<longrightarrow>
      targetId (updateAIState now ds npc ai players spawn cfg) = None)
   \<and> (behaviorType ai \<in> {AGGRESSIVE, PASSIVE, COWARDLY} \<and> noHuman npc players \<longrightarrow>
      targetId (updateAIState now ds npc ai players spawn cfg) = targetId ai)"
  using determineNextAction_intent [of ai players now rd npc cfg]
    processNPCAttack_stale [of ai players now ra npc ai]
    updateNPC_target_alive [of now ds rd ra npc ai players spawn dt cfg t']
    updateAIState_defensive_clears [of now ai cfg npc players ds spawn]
    updateAIState_keeps_target [of ai npc players now ds spawn cfg]
  by blast

lemma deadRoster_noHuman: "noHuman hunter deadRoster"
  by (simp add: noHuman_def deadRoster_def hunter_def npc1_def mockPlayers_def mockPlayer_def)

lemma hunterAI_due: "decisionDue 5000 hunterAI DEFAULT_AI_CONFIG"
  by (simp add: decisionDue_def hunterAI_def createAIState_def shouldMakeDecision_def
        DEFAULT_AI_CONFIG_def)

lemma deadRoster_target:
  "lookupTarget (Some ''1'') deadRoster = Some (deadRoster ! 0) \<and> isDead (deadRoster ! 0)"
  by (simp add: lookupTarget_def deadRoster_def mockPlayers_def mockPlayer_def)

lemma hunter_nearest:
  "findNearestPlayer hunter liveRoster None = Some (mockPlayers ! 0)"
  by (simp add: findNearestPlayer_def nearestStep_def liveRoster_def hunter_def npc1_def
        mockPlayers_def mockPlayer_def Let_def)

lemma hunter_decides:
  "updateAIState 5000 halfDecision hunter hunterAI liveRoster spawn0 DEFAULT_AI_CONFIG =
     hunterAI\<lparr>lastDecisionTime := 5000\<rparr>"
  using hunter_nearest
  by (simp add: updateAIState_def hunterAI_def createAIState_def shouldMakeDecision_def
        DEFAULT_AI_CONFIG_def healthAtMost_def healthAbove_def hunter_def npc1_def mockPlayer_def
        engage_def mockPlayers_def Let_def)

lemma hunter_acts:
  "determineNextAction 5000 (1 / 2) hunter (hunterAI\<lparr>lastDecisionTime := 5000\<rparr>) liveRoster
       DEFAULT_AI_CONFIG =
     \<lparr>moveDirection = None, shouldAttack = True, shouldDefend = False,
      actionTargetId = Some ''1''\<rparr>"
  by (simp add: determineNextAction_def lookupTarget_def hunterAI_def createAIState_def
        liveRoster_def mockPlayers_def mockPlayer_def calculateDistance_def hunter_def npc1_def
        DEFAULT_AI_CONFIG_def Let_def)

lemma processNPCAttack_target:
  assumes "lookupTarget tid players = Some tp" and "\<not> isDead tp"
  shows "updatedTarget (processNPCAttack now r npc tid players ai) =
     Some (tp\<lparr>health := max 0 (health tp - npcActualDamage r tp),
               isDead := (health tp - npcActualDamage r tp \<le> 0)\<rparr>)"
  using assms by (simp add: processNPCAttack_def Let_def)

lemma updateNPC_attack_target:
  assumes "\<not> isDead npc"
    and "shouldAttack (determineNextAction now rd npc
           (updateAIState now ds npc ai players spawn cfg) players cfg)"
  shows "updatedTarget (updateNPC now ds rd ra npc ai players spawn dt cfg) =
     updatedTarget (processNPCAttack now ra
       ((updateNPCPosition npc (moveDirection (determineNextAction now rd npc
           (updateAIState now ds npc ai players spawn cfg) players cfg)) dt 2)
          \<lparr>isAttacking := False, isDefending := False\<rparr>)
       (actionTargetId (determineNextAction now rd npc
           (updateAIState now ds npc ai players spawn cfg) players cfg))
       players (updateAIState now ds npc ai players spawn cfg))"
  using assms by (simp add: updateNPC_def Let_def)

lemma hunter_hits:
  "updatedTarget (updateNPC 5000 halfDecision (1 / 2) (1 / 2) hunter hunterAI liveRoster spawn0
       (16 / 1000) DEFAULT_AI_CONFIG) =
     Some ((mockPlayers ! 0)\<lparr>health := 90\<rparr>)"
proof -
  have alive: "\<not> isDead hunter"
    by (simp add: hunter_def npc1_def mockPlayer_def)
  have tgt: "lookupTarget (Some ''1'') liveRoster = Some (mockPlayers ! 0)"
    by (simp add: lookupTarget_def liveRoster_def mockPlayers_def mockPlayer_def)
  have p0: "\<not> isDead (mockPlayers ! 0)"
    by (simp add: mockPlayers_def mockPlayer_def)
  have dmg: "npcActualDamage (1 / 2) (mockPlayers ! 0) = 10"
    by (simp add: npcActualDamage_def npcDamage_def mockPlayers_def mockPlayer_def Let_def)
  have "updatedTarget (updateNPC 5000 halfDecision (1 / 2) (1 / 2) hunter hunterAI liveRoster
       spawn0 (16 / 1000) DEFAULT_AI_CONFIG) =
     Some ((mockPlayers ! 0)\<lparr>health := max 0 (health (mockPlayers ! 0) - 10),
              isDead := (health (mockPlayers ! 0) - 10 \<le> 0)\<rparr>)"
    using alive processNPCAttack_target [OF tgt p0] dmg
    by (simp add: updateNPC_attack_target hunter_decides hunter_acts)
  then show ?thesis
    by (simp add: mockPlayers_def mockPlayer_def)
qed

theorem stale_target_no_attack_witness:
  "\<not> liveTarget hunterAI deadRoster
   \<and> shouldAttack (determineNextAction 5000 (1 / 2) hunter hunterAI deadRoster DEFAULT_AI_CONFIG) = False
   \<and> updatedTarget (processNPCAttack 5000 (1 / 2) hunter (targetId hunterAI) deadRoster hunterAI) = None
   \<and> updatedTarget (updateNPC 5000 halfDecision (1 / 2) (1 / 2) hunter hunterAI liveRoster spawn0
         (16 / 1000) DEFAULT_AI_CONFIG) = Some ((mockPlayers ! 0)\<lparr>health := 90\<rparr>)
   \<and> (\<exists>tp. tp \<in> set liveRoster \<and> \<not> isDead tp \<and> pid tp = pid ((mockPlayers ! 0)\<lparr>health := 90\<rparr>))
   \<and> decisionDue 5000 guardAI DEFAULT_AI_CONFIG
   \<and> behaviorType guardAI = DEFENSIVE
   \<and> \<not> healthAtMost hunter (fleeThreshold DEFAULT_AI_CONFIG)
   \<and> noHuman hunter deadRoster
   \<and> targetId guardAI = Some ''1''
   \<and> targetId (updateAIState 5000 halfDecision hunter guardAI deadRoster spawn0 DEFAULT_AI_CONFIG) = None
   \<and> behaviorType hunterAI = AGGRESSIVE
   \<and> targetId (updateAIState 5000 halfDecision hunter hunterAI deadRoster spawn0 DEFAULT_AI_CONFIG)
       = Some ''1''"
proof -
  note k1 = stale_target_no_attack [where ai = hunterAI and players = deadRoster and now = 5000
      and rd = "1 / 2" and ra = "1 / 2" and npc = hunter and cfg = DEFAULT_AI_CONFIG
      and ds = halfDecision and spawn = spawn0]
  note k2 = stale_target_no_attack [where ai = hunterAI and players = liveRoster and now = 5000
      and rd = "1 / 2" and ra = "1 / 2" and npc = hunter and cfg = DEFAULT_AI_CONFIG
      and ds = halfDecision and spawn = spawn0 and dt = "16 / 1000"
      and t' = "(mockPlayers ! 0)\<lparr>health := 90\<rparr>"]
  note k3 = stale_target_no_attack [where ai = guardAI and players = deadRoster and now = 5000
      and npc = hunter and cfg = DEFAULT_AI_CONFIG and ds = halfDecision and spawn = spawn0]
  have stale: "\<not> liveTarget hunterAI deadRoster"
    using deadRoster_target by (simp add: liveTarget_def hunterAI_def createAIState_def)
  have a: "shouldAttack (determineNextAction 5000 (1 / 2) hunter hunterAI deadRoster DEFAULT_AI_CONFIG) = False
     \<and> updatedTarget (processNPCAttack 5000 (1 / 2) hunter (targetId hunterAI) deadRoster hunterAI) = None"
    using k1 stale by simp
  have b: "\<exists>tp. tp \<in> set liveRoster \<and> \<not> isDead tp \<and> pid tp = pid ((mockPlayers ! 0)\<lparr>health := 90\<rparr>)"
    using k2 hunter_hits by blast
  have g: "decisionDue 5000 guardAI DEFAULT_AI_CONFIG \<and> behaviorType guardAI = DEFENSIVE
      \<and> targetId guardAI = Some ''1''"
    by (simp add: decisionDue_def guardAI_def createAIState_def shouldMakeDecision_def
          DEFAULT_AI_CONFIG_def)
  have h: "\<not> healthAtMost hunter (fleeThreshold DEFAULT_AI_CONFIG)"
    by (simp add: healthAtMost_def hunter_def npc1_def mockPlayer_def DEFAULT_AI_CONFIG_def)
  have c: "targetId (updateAIState 5000 halfDecision hunter guardAI deadRoster spawn0
      DEFAULT_AI_CONFIG) = None"
    using k3 g h deadRoster_noHuman by blast
  have e: "behaviorType hunterAI = AGGRESSIVE \<and> targetId hunterAI = Some ''1''"
    by (simp add: hunterAI_def createAIState_def)
  have d: "targetId (updateAIState 5000 halfDecision hunter hunterAI deadRoster spawn0
      DEFAULT_AI_CONFIG) = Some ''1''"
    using k1 e deadRoster_noHuman by simp
  show ?thesis
    using stale a b g h c d e hunter_hits deadRoster_noHuman by blast
qed

text \<open>
  The claim as stated fails for an aggressive NPC: its target is dead (or gone from the list),
  a decision is due, and \<^const>\<open>updateAIState\<close> returns the same \<^const>\<open>targetId\<close>.
\<close>

theorem stale_target_counterexample:
  "targetId hunterAI = Some ''1''
   \<and> lookupTarget (targetId hunterAI) deadRoster = Some (deadRoster ! 0)
   \<and> isDead (deadRoster ! 0)
   \<and> decisionDue 5000 hunterAI DEFAULT_AI_CONFIG
   \<and> targetId (updateAIState 5000 halfDecision hunter hunterAI deadRoster spawn0 DEFAULT_AI_CONFIG)
       = Some ''1''
   \<and> lookupTarget (targetId hunterAI) [hunter] = None
   \<and> targetId (updateAIState 5000 halfDecision hunter hunterAI [hunter] spawn0 DEFAULT_AI_CONFIG)
       = Some ''1''"
proof -
  have t: "targetId hunterAI = Some ''1''" and b: "behaviorType hunterAI = AGGRESSIVE"
    by (simp_all add: hunterAI_def createAIState_def)
  have n: "noHuman hunter [hunter]"
    by (simp add: noHuman_def)
  have l: "lookupTarget (Some ''1'') [hunter] = None"
    by (simp add: lookupTarget_def hunter_def npc1_def mockPlayer_def)
  show ?thesis
    using t b n l deadRoster_target hunterAI_due deadRoster_noHuman
    by (simp add: updateAIState_keeps_target)
qed

section \<open>NPC and player rules\<close>

text \<open>
  C8. NPC and player attacks do not follow the same rules. \<^const>\<open>processNPCAttack\<close> rolls from
  the fixed range 5 to 15 whatever the NPC's country is, and halves the damage of a defending
  target; the player's \<^const>\<open>handleAttack\<close> rolls from the attacker's country range and
  applies the defender's country mitigation. With a russian attacker, the defending uk
  defender Player3 and the draw one half, the NPC rolls 10 and deals 5, the player rolls 15
  and deals 10.
\<close>

theorem npc_attack_ignores_class:
  "baseDamage (Some russian) (1 / 2) = 15
   \<and> npcDamage (1 / 2) = 10
   \<and> finalDamage (baseDamage (Some russian) (1 / 2)) ''uk'' True = 10
   \<and> npcActualDamage (1 / 2) ((mockPlayers ! 2)\<lparr>isDefending := True\<rparr>) = 5
   \<and> health (updatedTargetPlayer 5000 (Some russian) (1 / 2) ((mockPlayers ! 2)\<lparr>isDefending := True\<rparr>)) = 90
   \<and> map_option health (updatedTarget (processNPCAttack 5000 (1 / 2) (npc1 ''russia'' 300 101)
         (Some ''3'') [(mockPlayers ! 2)\<lparr>isDefending := True\<rparr>] (createAIState AGGRESSIVE))) = Some 95
   \<and> npcDamage 0 = 5
   \<and> range_min (damageRangeOf ''russia'') = 12"
  by (simp add: baseDamage_def playerCountryOf_def russian_def damageRangeOf_def WEAPON_DAMAGE_def
        npcDamage_def finalDamage_def defenseMultiplier_def defenseValueOf_def DEFENSE_VALUES_def
        npcActualDamage_def mockPlayers_def mockPlayer_def updatedTargetPlayer_def
        processNPCAttack_def lookupTarget_def Let_def)

section \<open>Wandering\<close>

lemma updateAIState_wander_kept:
  assumes "noHuman npc players" and "wanderTarget ai = Some wt"
    and "behaviorType ai \<in> {AGGRESSIVE, DEFENSIVE}"
  shows "wanderTarget (updateAIState now ds npc ai players spawn cfg) = Some wt"
  using assms
  by (auto simp: updateAIState_def findNearestPlayer_noHuman Let_def)

lemma updateAIState_wander_some:
  assumes "noHuman npc players" and "wanderTarget ai \<noteq> None"
  shows "wanderTarget (updateAIState now ds npc ai players spawn cfg) \<noteq> None"
  using assms
  by (cases "behaviorType ai")
     (auto simp: updateAIState_def findNearestPlayer_noHuman Let_def)

lemma updateNPC_wanderTarget:
  "wanderTarget (updatedAIState (updateNPC now ds rd ra npc ai players spawn dt cfg)) =
     (if isDead npc then wanderTarget ai
      else wanderTarget (updateAIState now ds npc ai players spawn cfg))"
  by (simp add: updateNPC_def Let_def)

lemma determineNextAction_wander:
  assumes "fleeTarget ai = None" and "\<not> liveTarget ai players" and "wanderTarget ai = Some wt"
  shows "moveDirection (determineNextAction now rd npc ai players cfg) =
     (if arrived npc wt then None
      else Some (direction (vx wt - px npc) (vz wt - py npc)))"
  using assms
  by (auto simp: determineNextAction_def liveTarget_def arrived_def Let_def split: option.splits)

text \<open>
  C9. In the wandering branch (no flee target, no living target) an NPC that is within 0.5
  units of its wander target gets no move direction, and the wander target is not cleared:
  \<^const>\<open>determineNextAction\<close> returns no AI state, and with no living human in the list the
  AI state that \<^const>\<open>updateNPC\<close> returns still has a wander target, the same one for an
  aggressive or defensive NPC.
\<close>

theorem wander_target_kept_on_arrival:
  assumes "fleeTarget ai = None" and "\<not> liveTarget ai players"
    and "wanderTarget ai = Some wt" and "arrived npc wt"
  shows "moveDirection (determineNextAction now rd npc ai players cfg) = None
       \<and> (noHuman npc players \<longrightarrow>
            wanderTarget (updatedAIState (updateNPC now ds rd ra npc ai players spawn dt cfg)) \<noteq> None)
       \<and> (noHuman npc players \<and> behaviorType ai \<in> {AGGRESSIVE, DEFENSIVE} \<longrightarrow>
            wanderTarget (updatedAIState (updateNPC now ds rd ra npc ai players spawn dt cfg)) = Some wt)"
  using assms updateAIState_wander_some [of npc players ai now ds spawn cfg]
    updateAIState_wander_kept [of npc players ai wt now ds spawn cfg]
  by (simp add: determineNextAction_wander updateNPC_wanderTarget)

lemma wanderer_arrived: "arrived wanderer wanderGoal"
proof -
  have "sqrt (9 / 100) < (1 / 2 :: real)"
    by (rule real_less_lsqrt) (simp_all add: power2_eq_square)
  then show ?thesis
    by (simp add: arrived_def wanderer_def wanderGoal_def npc1_def mockPlayer_def power2_eq_square)
qed

lemma wanderer_alone:
  "noHuman wanderer [wanderer] \<and> \<not> liveTarget wandererAI [wanderer]
   \<and> fleeTarget wandererAI = None \<and> wanderTarget wandererAI = Some wanderGoal
   \<and> behaviorType wandererAI = AGGRESSIVE"
  by (simp add: noHuman_def liveTarget_def lookupTarget_def wandererAI_def createAIState_def)

lemma wanderer_stays:
  "px (updatedNPC (updateNPC 5000 halfDecision (1 / 2) (1 / 2) wanderer wandererAI [wanderer]
        spawn0 (16 / 1000) DEFAULT_AI_CONFIG)) = 10
   \<and> py (updatedNPC (updateNPC 5000 halfDecision (1 / 2) (1 / 2) wanderer wandererAI [wanderer]
        spawn0 (16 / 1000) DEFAULT_AI_CONFIG)) = 10"
proof -
  let ?ai = "updateAIState 5000 halfDecision wanderer wandererAI [wanderer] spawn0 DEFAULT_AI_CONFIG"
  have ai: "?ai = wandererAI\<lparr>lastDecisionTime := 5000\<rparr>"
    using wanderer_alone
    by (simp add: updateAIState_def findNearestPlayer_noHuman wandererAI_def createAIState_def
          shouldMakeDecision_def DEFAULT_AI_CONFIG_def healthAtMost_def healthAbove_def
          wanderer_def npc1_def mockPlayer_def Let_def)
  have act: "determineNextAction 5000 (1 / 2) wanderer (wandererAI\<lparr>lastDecisionTime := 5000\<rparr>)
        [wanderer] DEFAULT_AI_CONFIG =
      \<lparr>moveDirection = None, shouldAttack = False, shouldDefend = False, actionTargetId = None\<rparr>"
    using wanderer_arrived
    by (simp add: determineNextAction_def lookupTarget_def wandererAI_def createAIState_def
          arrived_def Let_def)
  have alive: "\<not> isDead wanderer"
    by (simp add: wanderer_def npc1_def mockPlayer_def)
  have "updatedNPC (updateNPC 5000 halfDecision (1 / 2) (1 / 2) wanderer wandererAI [wanderer]
        spawn0 (16 / 1000) DEFAULT_AI_CONFIG) = wanderer\<lparr>isAttacking := False, isDefending := False\<rparr>"
    using alive by (simp add: updateNPC_def ai act updateNPCPosition_def Let_def)
  then show ?thesis
    by (simp add: wanderer_def npc1_def mockPlayer_def)
qed

theorem wander_target_kept_on_arrival_witness:
  "fleeTarget wandererAI = None
   \<and> \<not> liveTarget wandererAI [wanderer]
   \<and> wanderTarget wandererAI = Some wanderGoal
   \<and> arrived wanderer wanderGoal
   \<and> noHuman wanderer [wanderer]
   \<and> behaviorType wandererAI = AGGRESSIVE
   \<and> moveDirection (determineNextAction 5000 (1 / 2) wanderer wandererAI [wanderer]
        DEFAULT_AI_CONFIG) = None
   \<and> wanderTarget (updatedAIState (updateNPC 5000 halfDecision (1 / 2) (1 / 2) wanderer wandererAI
        [wanderer] spawn0 (16 / 1000) DEFAULT_AI_CONFIG)) = Some wanderGoal
   \<and> px (updatedNPC (updateNPC 5000 halfDecision (1 / 2) (1 / 2) wanderer wandererAI [wanderer]
        spawn0 (16 / 1000) DEFAULT_AI_CONFIG)) = 10
   \<and> py (updatedNPC (updateNPC 5000 halfDecision (1 / 2) (1 / 2) wanderer wandererAI [wanderer]
        spawn0 (16 / 1000) DEFAULT_AI_CONFIG)) = 10"
  using wander_target_kept_on_arrival [where ai = wandererAI and players = "[wanderer]"
      and wt = wanderGoal and npc = wanderer and now = 5000 and rd = "1 / 2" and ra = "1 / 2"
      and ds = halfDecision and cfg = DEFAULT_AI_CONFIG and spawn = spawn0 and dt = "16 / 1000"]
    wanderer_arrived wanderer_alone wanderer_stays
  by simp

end
